theory Spec2Isabelle
  imports Complex_Main
begin

section \<open>Python strings\<close>

text \<open>
  Strings are lists of characters read as ASCII code points. The classification
  below follows \<^verbatim>\<open>str.isspace\<close>, \<^verbatim>\<open>str.isupper\<close>, \<^verbatim>\<open>str.islower\<close> and
  \<^verbatim>\<open>str.isdigit\<close> on code points below 128; characters from 128 on are treated as
  uncased symbols that are neither whitespace nor word characters, so the model follows
  the program on ASCII text.
\<close>

definition isspace :: "char \<Rightarrow> bool" where
  "isspace c = (let n = (of_char c :: nat) in (9 \<le> n \<and> n \<le> 13) \<or> (28 \<le> n \<and> n \<le> 32))"

definition isupper :: "char \<Rightarrow> bool" where
  "isupper c = (let n = (of_char c :: nat) in 65 \<le> n \<and> n \<le> 90)"

definition islower :: "char \<Rightarrow> bool" where
  "islower c = (let n = (of_char c :: nat) in 97 \<le> n \<and> n \<le> 122)"

definition isdigit :: "char \<Rightarrow> bool" where
  "isdigit c = (let n = (of_char c :: nat) in 48 \<le> n \<and> n \<le> 57)"

definition isalpha :: "char \<Rightarrow> bool" where
  "isalpha c = (isupper c \<or> islower c)"

text \<open>The regular-expression class \<^verbatim>\<open>\w\<close>: letters, digits and the underscore.\<close>

definition isword :: "char \<Rightarrow> bool" where
  "isword c = (isalpha c \<or> isdigit c \<or> c = CHR ''_'')"

text \<open>Upper and lower case differ in bit 5 of the code point.\<close>

definition lower_char :: "char \<Rightarrow> char" where
  "lower_char c =
     (if isupper c
      then Char (digit0 c) (digit1 c) (digit2 c) (digit3 c) (digit4 c) True (digit6 c) (digit7 c)
      else c)"

definition upper_char :: "char \<Rightarrow> char" where
  "upper_char c =
     (if islower c
      then Char (digit0 c) (digit1 c) (digit2 c) (digit3 c) (digit4 c) False (digit6 c) (digit7 c)
      else c)"

definition py_lower :: "string \<Rightarrow> string" where
  "py_lower s = map lower_char s"

text \<open>\<^verbatim>\<open>s.strip()\<close>: leading and trailing whitespace removed.\<close>

definition py_strip :: "string \<Rightarrow> string" where
  "py_strip s = rev (dropWhile isspace (rev (dropWhile isspace s)))"

text \<open>\<^verbatim>\<open>s.startswith(w)\<close> and \<^verbatim>\<open>w in s\<close> (contiguous substring).\<close>

fun startswith :: "string \<Rightarrow> string \<Rightarrow> bool" where
  "startswith s [] = True"
| "startswith [] (w # ws) = False"
| "startswith (c # cs) (w # ws) = (c = w \<and> startswith cs ws)"

fun py_in :: "string \<Rightarrow> string \<Rightarrow> bool" where
  "py_in w [] = (w = [])"
| "py_in w (c # cs) = (startswith (c # cs) w \<or> py_in w cs)"

text \<open>\<^verbatim>\<open>s.split(sep)\<close> for a one-character separator; the result is never empty.\<close>

fun py_split :: "char \<Rightarrow> string \<Rightarrow> string list" where
  "py_split sep [] = [[]]"
| "py_split sep (c # cs) =
     (if c = sep then [] # py_split sep cs
      else (case py_split sep cs of p # ps \<Rightarrow> (c # p) # ps | [] \<Rightarrow> [[c]]))"

text \<open>\<^verbatim>\<open>s.split()\<close>: the maximal runs of non-whitespace characters.\<close>

fun py_words :: "string \<Rightarrow> string list" where
  "py_words [] = []"
| "py_words (c # cs) =
     (if isspace c then py_words cs
      else (case cs of
              [] \<Rightarrow> [[c]]
            | d # ds \<Rightarrow> if isspace d then [c] # py_words cs
                       else (case py_words cs of w # ws \<Rightarrow> (c # w) # ws | [] \<Rightarrow> [[c]])))"

text \<open>\<^verbatim>\<open>sep.join(parts)\<close>.\<close>

fun py_join :: "string \<Rightarrow> string list \<Rightarrow> string" where
  "py_join sep [] = []"
| "py_join sep [p] = p"
| "py_join sep (p # q # ps) = p @ sep @ py_join sep (q # ps)"


text \<open>
  \<^verbatim>\<open>s.capitalize()\<close>: first character upper-cased, the rest lower-cased.
  \<^verbatim>\<open>s.title()\<close>: in every maximal run of letters the first is upper-cased and the
  others lower-cased; the flag tells whether the previous character was a letter.
\<close>

fun capitalize :: "string \<Rightarrow> string" where
  "capitalize [] = []"
| "capitalize (c # cs) = upper_char c # map lower_char cs"

fun title_from :: "bool \<Rightarrow> string \<Rightarrow> string" where
  "title_from prev [] = []"
| "title_from prev (c # cs) =
     (if prev then lower_char c else upper_char c) # title_from (isalpha c) cs"

definition py_title :: "string \<Rightarrow> string" where
  "py_title s = title_from False s"

section \<open>Errors and the builtin \<^verbatim>\<open>int\<close>\<close>

datatype error = ValueError | KeyError string | ZeroDivisionError | IndexError

text \<open>
  \<^verbatim>\<open>int(s)\<close> on a string: surrounding whitespace is ignored, a sign may come first,
  and the digits may be grouped by single underscores; anything else raises
  \<^verbatim>\<open>ValueError\<close>. The integers are unbounded.
\<close>

fun int_body :: "string \<Rightarrow> bool" where
  "int_body [] = False"
| "int_body [c] = isdigit c"
| "int_body (c # d # cs) =
     (isdigit c \<and> (if d = CHR ''_'' then int_body cs else int_body (d # cs)))"

definition digit_val :: "char \<Rightarrow> int" where
  "digit_val c = int (of_char c) - 48"

definition digits_val :: "string \<Rightarrow> int" where
  "digits_val s = foldl (\<lambda>a c. 10 * a + digit_val c) 0 (filter isdigit s)"

definition py_int :: "string \<Rightarrow> error + int" where
  "py_int s =
     (let t = py_strip s;
          neg = startswith t ''-'';
          body = (if startswith t ''-'' \<or> startswith t ''+'' then tl t else t)
      in if int_body body
         then Inr (if neg then - digits_val body else digits_val body)
         else Inl ValueError)"

section \<open>The regular expressions of the program\<close>

text \<open>
  Every pattern of the program is a sequence of items: a character class with a greedy
  repetition count, or a zero-width assertion (\<^verbatim>\<open>^\<close>, \<^verbatim>\<open>$\<close>, \<^verbatim>\<open>\b\<close>, a one-character
  lookahead). Matching follows the backtracking order of Python's \<^verbatim>\<open>re\<close>: an item
  first takes as many characters as it can and gives them back one at a time.
\<close>

datatype item =
    Rep "char \<Rightarrow> bool" nat "nat option"
  | Bol
  | Eol
  | WordB
  | Ahead "char \<Rightarrow> bool"

type_synonym pattern = "item list"

text \<open>
  \<open>backtrack f lo k\<close> tries the counts \<open>k\<close>, \<open>k - 1\<close>, \dots, \<open>lo\<close> and returns the
  length of the first match.
\<close>

fun backtrack :: "(nat \<Rightarrow> nat option) \<Rightarrow> nat \<Rightarrow> nat \<Rightarrow> nat option" where
  "backtrack f lo 0 = (if lo = 0 then f 0 else None)"
| "backtrack f lo (Suc k) =
     (if Suc k < lo then None
      else (case f (Suc k) of
              Some m \<Rightarrow> Some (Suc k + m)
            | None \<Rightarrow> backtrack f lo k))"

definition word_opt :: "char option \<Rightarrow> bool" where
  "word_opt c = (case c of None \<Rightarrow> False | Some x \<Rightarrow> isword x)"

definition head_opt :: "string \<Rightarrow> char option" where
  "head_opt s = (case s of [] \<Rightarrow> None | c # _ \<Rightarrow> Some c)"

text \<open>The character before position \<open>k\<close> of \<open>s\<close>, when \<open>prev\<close> is the one before \<open>s\<close>.\<close>

definition prev_at :: "char option \<Rightarrow> string \<Rightarrow> nat \<Rightarrow> char option" where
  "prev_at prev s k = (if k = 0 then prev else Some (s ! (k - 1)))"

text \<open>
  \<open>match_here p prev s\<close>: the length of the match of \<open>p\<close> at the start of \<open>s\<close>, where
  \<open>prev\<close> is the character before \<open>s\<close> (\<open>None\<close> at the start of the subject).
\<close>

fun match_here :: "pattern \<Rightarrow> char option \<Rightarrow> string \<Rightarrow> nat option" where
  "match_here [] prev s = Some 0"
| "match_here (Bol # its) prev s = (if prev = None then match_here its prev s else None)"
| "match_here (Eol # its) prev s =
     (if s = [] \<or> s = [CHR 0x0A] then match_here its prev s else None)"
| "match_here (WordB # its) prev s =
     (if word_opt prev \<noteq> word_opt (head_opt s) then match_here its prev s else None)"
| "match_here (Ahead p # its) prev s =
     (case s of [] \<Rightarrow> None | c # _ \<Rightarrow> if p c then match_here its prev s else None)"
| "match_here (Rep p lo hi # its) prev s =
     (let n = length (takeWhile p s);
          top = (case hi of None \<Rightarrow> n | Some h \<Rightarrow> min h n)
      in backtrack (\<lambda>k. match_here its (prev_at prev s k) (drop k s)) lo top)"

text \<open>\<^verbatim>\<open>re.search\<close>: the leftmost match, as (start, length).\<close>

fun search_from :: "pattern \<Rightarrow> char option \<Rightarrow> string \<Rightarrow> (nat \<times> nat) option" where
  "search_from p prev [] = map_option (Pair 0) (match_here p prev [])"
| "search_from p prev (c # cs) =
     (case match_here p prev (c # cs) of
        Some n \<Rightarrow> Some (0, n)
      | None \<Rightarrow> map_option (\<lambda>(i, n). (Suc i, n)) (search_from p (Some c) cs))"

text \<open>\<^verbatim>\<open>re.search(p, s)\<close> followed by \<^verbatim>\<open>.group()\<close>: the matched text.\<close>

definition re_search :: "pattern \<Rightarrow> string \<Rightarrow> string option" where
  "re_search p s = map_option (\<lambda>(i, n). take n (drop i s)) (search_from p None s)"

text \<open>
  \<^verbatim>\<open>re.sub(p, repl, s)\<close> for a replacement without group references: the
  non-overlapping matches are replaced from left to right.
\<close>

function sub_from :: "pattern \<Rightarrow> string \<Rightarrow> char option \<Rightarrow> string \<Rightarrow> string" where
  "sub_from p repl prev [] = (case match_here p prev [] of Some _ \<Rightarrow> repl | None \<Rightarrow> [])"
| "sub_from p repl prev (c # cs) =
     (case match_here p prev (c # cs) of
        None \<Rightarrow> c # sub_from p repl (Some c) cs
      | Some n \<Rightarrow>
          if n = 0 \<or> length cs < n - 1 then repl @ c # sub_from p repl (Some c) cs
          else repl @ sub_from p repl (Some ((c # cs) ! (n - 1))) (drop (n - 1) cs))"
  by pat_completeness auto
termination
  by (relation "measure (\<lambda>(p, repl, prev, s). length s)") auto

definition re_sub :: "pattern \<Rightarrow> string \<Rightarrow> string \<Rightarrow> string" where
  "re_sub p repl s = sub_from p repl None s"

text \<open>Pattern building blocks.\<close>

definition lit :: "char \<Rightarrow> item" where
  "lit c = Rep (\<lambda>x. x = c) 1 (Some 1)"

definition ilit :: "char \<Rightarrow> item" where
  "ilit c = Rep (\<lambda>x. lower_char x = lower_char c) 1 (Some 1)"

definition one :: "(char \<Rightarrow> bool) \<Rightarrow> item" where
  "one p = Rep p 1 (Some 1)"

definition opt :: "(char \<Rightarrow> bool) \<Rightarrow> item" where
  "opt p = Rep p 0 (Some 1)"

definition star :: "(char \<Rightarrow> bool) \<Rightarrow> item" where
  "star p = Rep p 0 None"

definition many1 :: "(char \<Rightarrow> bool) \<Rightarrow> item" where
  "many1 p = Rep p 1 None"

definition is_char :: "char \<Rightarrow> char \<Rightarrow> bool" where
  "is_char c x = (x = c)"

text \<open>The class \<^verbatim>\<open>.\<close>: anything but a newline.\<close>

definition dot :: "char \<Rightarrow> bool" where
  "dot c = (c \<noteq> CHR 0x0A)"

section \<open>Rank and score parsing\<close>

text \<open>
  \<^verbatim>\<open>UniversityDataCleaner._parse_ranking\<close>. The argument is a string or null
  (\<open>None\<close>, for which \<^verbatim>\<open>pd.isna\<close> holds). The call of \<^verbatim>\<open>int\<close> is not guarded, so
  an error of \<^verbatim>\<open>int\<close> would leave the function.
\<close>

definition not_ranked_words :: "string list" where
  "not_ranked_words = [''not'', ''unranked'', ''n/a'', ''na'']"

text \<open>The patterns \<^verbatim>\<open>^[=#+]\<close>, \<^verbatim>\<open>\+.*$\<close> and \<^verbatim>\<open>\d+\<close>.\<close>

definition pat_rank_prefix :: pattern where
  "pat_rank_prefix = [Bol, one (\<lambda>c. c \<in> set ''=#+'')]"

definition pat_rank_plus :: pattern where
  "pat_rank_plus = [lit CHR ''+'', star dot, Eol]"

definition pat_digits :: pattern where
  "pat_digits = [many1 isdigit]"

definition parse_ranking :: "string option \<Rightarrow> error + int option" where
  "parse_ranking rank_value =
     (case rank_value of
        None \<Rightarrow> Inr None
      | Some v \<Rightarrow>
          (let rank_str = py_strip v in
           if list_ex (\<lambda>word. py_in word (py_lower rank_str)) not_ranked_words then Inr None
           else
             (let rank_str = re_sub pat_rank_prefix [] rank_str;
                  rank_str = (if py_in ''-'' rank_str then hd (py_split CHR ''-'' rank_str)
                              else rank_str);
                  rank_str = re_sub pat_rank_plus [] rank_str
              in case re_search pat_digits rank_str of
                   Some m \<Rightarrow> (case py_int m of Inl e \<Rightarrow> Inl e | Inr n \<Rightarrow> Inr (Some n))
                 | None \<Rightarrow> Inr None)))"





section \<open>Text normalization in the cleaner\<close>

text \<open>
  A word of a pattern: \<open>iword\<close> under \<^verbatim>\<open>re.IGNORECASE\<close>, \<open>cword\<close> without the flag.
\<close>

definition iword :: "string \<Rightarrow> pattern" where
  "iword w = map ilit w"

definition cword :: "string \<Rightarrow> pattern" where
  "cword w = map lit w"

text \<open>The pattern \<^verbatim>\<open>\s+\<close>.\<close>

definition pat_spaces :: pattern where
  "pat_spaces = [many1 isspace]"

text \<open>
  The dictionary \<^verbatim>\<open>abbreviations\<close> of \<^verbatim>\<open>clean_university_name\<close>, in its order; every
  pattern is applied with \<^verbatim>\<open>re.IGNORECASE\<close>. The shapes are \<^verbatim>\<open>\bW\b\.?\<close>,
  \<^verbatim>\<open>\bU\b\.?(?=\s)\<close>, \<^verbatim>\<open>\bInt\'?l\b\.?\<close> and \<^verbatim>\<open>\bSt\b\.\<close>.
\<close>

definition abbr :: "string \<Rightarrow> pattern" where
  "abbr w = [WordB] @ iword w @ [WordB, opt (is_char CHR ''.'')]"

definition abbr_quote :: "string \<Rightarrow> string \<Rightarrow> pattern" where
  "abbr_quote w v = [WordB] @ iword w @ [opt (is_char CHR 0x27)] @ iword v @
                    [WordB, opt (is_char CHR ''.'')]"

definition abbr_dot :: "string \<Rightarrow> pattern" where
  "abbr_dot w = [WordB] @ iword w @ [WordB, lit CHR ''.'']"

definition abbreviations :: "(pattern \<times> string) list" where
  "abbreviations =
     [(abbr ''Univ'', ''University''),
      ([WordB] @ iword ''U'' @ [WordB, opt (is_char CHR ''.''), Ahead isspace], ''University''),
      (abbr ''Inst'', ''Institute''),
      (abbr ''Tech'', ''Technology''),
      (abbr ''Coll'', ''College''),
      (abbr ''Sci'', ''Science''),
      (abbr ''Eng'', ''Engineering''),
      (abbr ''Med'', ''Medical''),
      (abbr ''Bus'', ''Business''),
      (abbr_quote ''Int'' ''l'', ''International''),
      (abbr_quote ''Nat'' ''l'', ''National''),
      (abbr_dot ''St'', ''Saint''),
      (abbr_dot ''Mt'', ''Mount'')]"

text \<open>
  \<^verbatim>\<open>noise_patterns\<close>: \<^verbatim>\<open>\s*\([^)]*\)$\<close>, \<^verbatim>\<open>\s*-\s*[A-Z]{2,}$\<close> and
  \<^verbatim>\<open>\s*,\s*[A-Z]{2,}$\<close>, applied without flags.
\<close>

definition pat_paren :: pattern where
  "pat_paren = [star isspace, lit CHR ''('', star (\<lambda>c. c \<noteq> CHR '')''), lit CHR '')'', Eol]"

definition pat_code_after :: "char \<Rightarrow> pattern" where
  "pat_code_after sep = [star isspace, lit sep, star isspace, Rep isupper 2 None, Eol]"

definition noise_patterns :: "pattern list" where
  "noise_patterns = [pat_paren, pat_code_after CHR ''-'', pat_code_after CHR '','']"

text \<open>The pattern \<^verbatim>\<open>^The\s+\<close>.\<close>

definition pat_the :: pattern where
  "pat_the = [Bol] @ cword ''The'' @ [many1 isspace]"

text \<open>\<^verbatim>\<open>UniversityDataCleaner._title_case_university_name\<close>.\<close>

definition lowercase_words :: "string list" where
  "lowercase_words = [''of'', ''the'', ''and'', ''in'', ''at'', ''by'', ''for'', ''to'', ''into'',
                      ''with'', ''from'', ''up'', ''on'', ''off'', ''over'', ''under'']"

definition case_word :: "string \<Rightarrow> string" where
  "case_word word = (if py_lower word \<in> set lowercase_words then py_lower word
                     else capitalize word)"

definition title_case_university_name :: "string \<Rightarrow> string" where
  "title_case_university_name name =
     (case py_words name of
        [] \<Rightarrow> name
      | w # ws \<Rightarrow> py_join '' '' (capitalize w # map case_word ws))"

text \<open>
  \<^verbatim>\<open>UniversityDataCleaner.clean_university_name\<close>. The argument is a string or null;
  null gives the empty string. The cache stores results of the same computation and is
  left out.
\<close>

definition clean_university_name :: "string option \<Rightarrow> string" where
  "clean_university_name x =
     (case x of
        None \<Rightarrow> []
      | Some name \<Rightarrow>
          (let name = re_sub pat_spaces '' '' (py_strip name);
               name = fold (\<lambda>(pattern, replacement) name. re_sub pattern replacement name)
                        abbreviations name;
               name = fold (\<lambda>pattern name. re_sub pattern [] name) noise_patterns name;
               name = re_sub pat_the [] name
           in title_case_university_name name))"

text \<open>\<^verbatim>\<open>_load_country_mappings\<close> and the \<^verbatim>\<open>standardizations\<close> of \<^verbatim>\<open>clean_country_name\<close>:
  \<^verbatim>\<open>\bUSA?\b\<close>, \<^verbatim>\<open>\bUK\b\<close>, \<^verbatim>\<open>\bU\.?S\.?A\.?\b\<close> and \<^verbatim>\<open>\bU\.?K\.?\b\<close>, with
  \<^verbatim>\<open>re.IGNORECASE\<close>.\<close>

definition country_mappings :: "(string \<times> string) list" where
  "country_mappings =
     [(''US'', ''United States''),
      (''USA'', ''United States''),
      (''United States of America'', ''United States''),
      (''UK'', ''United Kingdom''),
      (''Great Britain'', ''United Kingdom''),
      (''England'', ''United Kingdom''),
      (''Scotland'', ''United Kingdom''),
      (''Wales'', ''United Kingdom''),
      (''Northern Ireland'', ''United Kingdom''),
      (''Russia'', ''Russian Federation''),
      (''South Korea'', ''Republic of Korea''),
      (''North Korea'', ''Democratic People'' @ [CHR 0x27] @ ''s Republic of Korea''),
      (''Iran'', ''Islamic Republic of Iran''),
      (''Vietnam'', ''Viet Nam''),
      (''Czech Republic'', ''Czechia''),
      (''Macedonia'', ''North Macedonia''),
      (''Myanmar'', ''Myanmar (Burma)''),
      (''Congo'', ''Democratic Republic of the Congo'')]"

definition dotted :: "string \<Rightarrow> pattern" where
  "dotted w = concat (map (\<lambda>c. [ilit c, opt (is_char CHR ''.'')]) w)"

definition standardizations :: "(pattern \<times> string) list" where
  "standardizations =
     [([WordB] @ iword ''US'' @ [opt (\<lambda>x. lower_char x = CHR ''a''), WordB], ''United States''),
      ([WordB] @ iword ''UK'' @ [WordB], ''United Kingdom''),
      ([WordB] @ dotted ''USA'' @ [WordB], ''United States''),
      ([WordB] @ dotted ''UK'' @ [WordB], ''United Kingdom'')]"

text \<open>\<^verbatim>\<open>UniversityDataCleaner.clean_country_name\<close>.\<close>

definition clean_country_name :: "string option \<Rightarrow> string" where
  "clean_country_name x =
     (case x of
        None \<Rightarrow> []
      | Some country \<Rightarrow>
          (let country = py_strip country in
           case map_of country_mappings country of
             Some standard \<Rightarrow> standard
           | None \<Rightarrow>
               (let country = re_sub pat_spaces '' '' country;
                    country = fold (\<lambda>(pattern, replacement) country.
                                      re_sub pattern replacement country)
                                standardizations country
                in py_title country)))"











section \<open>The integrator: name standardization and fuzzy matching\<close>

text \<open>
  The dictionary \<^verbatim>\<open>replacements\<close> of \<^verbatim>\<open>standardize_university_name\<close>, in its order,
  applied with \<^verbatim>\<open>re.IGNORECASE\<close>, and \<^verbatim>\<open>suffixes_to_remove\<close>:
  \<^verbatim>\<open>\s*\([^)]*\)\s*$\<close>, \<^verbatim>\<open>\s*-\s*.*$\<close> and \<^verbatim>\<open>\s*,\s*.*$\<close>.
\<close>

definition replacements :: "(pattern \<times> string) list" where
  "replacements =
     [([WordB] @ iword ''univ'' @ [WordB, opt (is_char CHR ''.'')], ''University''),
      ([WordB] @ iword ''university of'' @ [WordB], ''University of''),
      ([WordB] @ iword ''u'' @ [opt (is_char CHR ''.''), many1 isspace] @ iword ''of'' @ [WordB],
       ''University of''),
      ([WordB] @ iword ''u'' @ [lit CHR ''.'', star isspace, Eol], ''University''),
      ([WordB] @ iword ''univ'' @ [lit CHR ''.'', star isspace, Eol], ''University''),
      ([WordB] @ iword ''inst'' @ [WordB, opt (is_char CHR ''.'')], ''Institute''),
      ([WordB] @ iword ''institute of'' @ [WordB], ''Institute of''),
      ([WordB] @ iword ''tech'' @ [WordB, opt (is_char CHR ''.'')], ''Technology''),
      ([WordB] @ iword ''technical'' @ [WordB], ''Technology''),
      ([WordB] @ iword ''coll'' @ [WordB, opt (is_char CHR ''.'')], ''College''),
      ([WordB] @ iword ''college of'' @ [WordB], ''College of''),
      ([WordB] @ iword ''state'' @ [many1 isspace] @ iword ''u'' @ [WordB, opt (is_char CHR ''.'')],
       ''State University''),
      ([WordB] @ iword ''st'' @ [lit CHR ''.'', many1 isspace] @ iword ''u'' @
         [WordB, opt (is_char CHR ''.'')],
       ''State University'')]"

definition suffixes_to_remove :: "pattern list" where
  "suffixes_to_remove =
     [[star isspace, lit CHR ''('', star (\<lambda>c. c \<noteq> CHR '')''), lit CHR '')'', star isspace, Eol],
      [star isspace, lit CHR ''-'', star isspace, star dot, Eol],
      [star isspace, lit CHR '','', star isspace, star dot, Eol]]"

definition exceptions :: "string list" where
  "exceptions = [''of'', ''the'', ''and'', ''in'', ''at'', ''by'', ''for'', ''to'', ''with'', ''on'']"

text \<open>The loop \<^verbatim>\<open>for i, word in enumerate(words)\<close>.\<close>

fun case_words :: "bool \<Rightarrow> string list \<Rightarrow> string list" where
  "case_words first [] = []"
| "case_words first (word # ws) =
     (if first \<or> py_lower word \<notin> set exceptions then capitalize word else py_lower word)
       # case_words False ws"

text \<open>
  \<^verbatim>\<open>UniversityDataIntegrator.standardize_university_name\<close>. The argument is a string
  or null; null and the empty string give the empty string.
\<close>

definition standardize_university_name :: "string option \<Rightarrow> string" where
  "standardize_university_name x =
     (case x of
        None \<Rightarrow> []
      | Some name \<Rightarrow>
          if name = [] then []
          else
            (let name = py_strip name;
                 name = fold (\<lambda>(pattern, replacement) name. re_sub pattern replacement name)
                          replacements name;
                 name = fold (\<lambda>suffix name. re_sub suffix [] name) suffixes_to_remove name;
                 name = py_join '' '' (py_words name);
                 words = py_words name
             in py_join '' '' (case_words True words)))"

text \<open>
  The four similarity measures of the library \<^verbatim>\<open>thefuzz\<close> are parameters: each maps two
  strings to an integer from 0 to 100. The weighted sum is computed in the reals.
\<close>

record fuzz =
  ratio :: "string \<Rightarrow> string \<Rightarrow> int"
  partial_ratio :: "string \<Rightarrow> string \<Rightarrow> int"
  token_sort_ratio :: "string \<Rightarrow> string \<Rightarrow> int"
  token_set_ratio :: "string \<Rightarrow> string \<Rightarrow> int"

definition combined_score :: "fuzz \<Rightarrow> string \<Rightarrow> string \<Rightarrow> real" where
  "combined_score fz standardized_feedback standardized_qs =
     (let a = py_lower standardized_feedback; b = py_lower standardized_qs
      in real_of_int (ratio fz a b) * 0.3 + real_of_int (partial_ratio fz a b) * 0.2
         + real_of_int (token_sort_ratio fz a b) * 0.25
         + real_of_int (token_set_ratio fz a b) * 0.25)"

text \<open>One pass of the inner loop; the state is \<open>(best_match, best_score)\<close>.\<close>

definition consider_candidate ::
  "fuzz \<Rightarrow> string \<Rightarrow> string option \<Rightarrow> string option \<times> real \<Rightarrow> string option \<times> real" where
  "consider_candidate fz standardized_feedback qs_uni best =
     (let standardized_qs = standardize_university_name qs_uni;
          score = combined_score fz standardized_feedback standardized_qs
      in if score > snd best \<and> score \<ge> 80 then (Some standardized_qs, score) else best)"

definition best_candidate :: "fuzz \<Rightarrow> string \<Rightarrow> string option list \<Rightarrow> string option \<times> real" where
  "best_candidate fz standardized_feedback qs_universities =
     fold (consider_candidate fz standardized_feedback) qs_universities (None, 0)"

text \<open>
  \<^verbatim>\<open>UniversityDataIntegrator.find_university_matches\<close>. The dictionary \<^verbatim>\<open>matches\<close> is a
  map; \<^verbatim>\<open>if not feedback_uni\<close> skips null and empty names, \<^verbatim>\<open>if best_match\<close> skips an
  empty match.
\<close>

definition match_one ::
  "fuzz \<Rightarrow> string option list \<Rightarrow> string option \<Rightarrow> (string \<rightharpoonup> string) \<Rightarrow> (string \<rightharpoonup> string)" where
  "match_one fz qs_universities feedback_uni matches =
     (case feedback_uni of
        None \<Rightarrow> matches
      | Some f \<Rightarrow>
          if f = [] then matches
          else
            (let standardized_feedback = standardize_university_name feedback_uni;
                 best_match = fst (best_candidate fz standardized_feedback qs_universities)
             in case best_match of
                  None \<Rightarrow> matches
                | Some m \<Rightarrow> if m = [] then matches else matches(standardized_feedback \<mapsto> m)))"

definition find_university_matches ::
  "fuzz \<Rightarrow> string option list \<Rightarrow> string option list \<Rightarrow> (string \<rightharpoonup> string)" where
  "find_university_matches fz feedback_universities qs_universities =
     fold (match_one fz qs_universities) feedback_universities Map.empty"

section \<open>The integrator: merging the two sources\<close>

text \<open>
  A data frame: the column names and the rows, each row with one cell per column. The
  operations follow \<^verbatim>\<open>pandas\<close>: indexing by a column name raises \<^verbatim>\<open>KeyError\<close> when
  the column is missing; assigning a column replaces it or appends it; a left merge keeps
  the left rows in order, pairs each with every right row of equal key (a left row
  without partner gets nulls), and renames the column names that occur on both sides
  with the two suffixes.
\<close>

datatype cell = Null | Num real | Str string

record frame =
  col_names :: "string list"
  body :: "cell list list"

fun index_of :: "string \<Rightarrow> string list \<Rightarrow> nat option" where
  "index_of c [] = None"
| "index_of c (x # xs) = (if x = c then Some 0 else map_option Suc (index_of c xs))"

definition cell_at :: "cell list \<Rightarrow> nat \<Rightarrow> cell" where
  "cell_at r i = (if i < length r then r ! i else Null)"

definition column :: "frame \<Rightarrow> string \<Rightarrow> error + cell list" where
  "column df c =
     (case index_of c (col_names df) of
        None \<Rightarrow> Inl (KeyError c)
      | Some i \<Rightarrow> Inr (map (\<lambda>r. cell_at r i) (body df)))"

definition set_column :: "frame \<Rightarrow> string \<Rightarrow> cell list \<Rightarrow> frame" where
  "set_column df c vals =
     (case index_of c (col_names df) of
        Some i \<Rightarrow> df\<lparr>body := map (\<lambda>(r, v). r[i := v]) (zip (body df) vals)\<rparr>
      | None \<Rightarrow> \<lparr>col_names = col_names df @ [c],
                 body = map (\<lambda>(r, v). r @ [v]) (zip (body df) vals)\<rparr>)"

text \<open>\<^verbatim>\<open>df.empty\<close>, \<^verbatim>\<open>series.unique().tolist()\<close>, \<^verbatim>\<open>series.map(dict)\<close> and
  \<^verbatim>\<open>series.fillna\<close>.\<close>

definition empty_frame :: "frame \<Rightarrow> bool" where
  "empty_frame df = (body df = [] \<or> col_names df = [])"

definition unique :: "'a list \<Rightarrow> 'a list" where
  "unique xs = rev (remdups (rev xs))"

definition name_of :: "cell \<Rightarrow> string option" where
  "name_of v = (case v of Str s \<Rightarrow> Some s | _ \<Rightarrow> None)"

definition map_dict :: "(string \<rightharpoonup> string) \<Rightarrow> cell \<Rightarrow> cell" where
  "map_dict d v =
     (case v of Str s \<Rightarrow> (case d s of Some m \<Rightarrow> Str m | None \<Rightarrow> Null) | _ \<Rightarrow> Null)"

definition fillna :: "cell list \<Rightarrow> cell list \<Rightarrow> cell list" where
  "fillna vals other = map (\<lambda>(v, w). if v = Null then w else v) (zip vals other)"

definition left_merge ::
  "frame \<Rightarrow> frame \<Rightarrow> string \<Rightarrow> string \<Rightarrow> string \<times> string \<Rightarrow> error + frame" where
  "left_merge left right left_on right_on suffixes =
     (case index_of left_on (col_names left) of
        None \<Rightarrow> Inl (KeyError left_on)
      | Some i \<Rightarrow>
          (case index_of right_on (col_names right) of
             None \<Rightarrow> Inl (KeyError right_on)
           | Some j \<Rightarrow>
               (let rename = (\<lambda>other sfx c. if c \<in> set other then c @ sfx else c);
                    partners = (\<lambda>l. filter (\<lambda>r. cell_at r j = cell_at l i) (body right));
                    blank = replicate (length (col_names right)) Null
                in Inr \<lparr>col_names =
                          map (rename (col_names right) (fst suffixes)) (col_names left) @
                          map (rename (col_names left) (snd suffixes)) (col_names right),
                        body = concat (map (\<lambda>l. if partners l = [] then [l @ blank]
                                                else map (\<lambda>r. l @ r) (partners l))
                                        (body left))\<rparr>)))"

text \<open>The loop body of \<^verbatim>\<open>merge_data_sources\<close> for one column name.\<close>

definition prefer_feedback :: "string \<Rightarrow> frame \<Rightarrow> frame" where
  "prefer_feedback col merged_df =
     (case column merged_df (col @ ''_feedback'') of
        Inl _ \<Rightarrow> merged_df
      | Inr fb \<Rightarrow>
          set_column merged_df col
            (fillna fb (case column merged_df (col @ ''_qs'') of
                          Inr qs \<Rightarrow> qs
                        | Inl _ \<Rightarrow> replicate (length fb) (Num 0))))"

text \<open>\<^verbatim>\<open>UniversityDataIntegrator.merge_data_sources\<close>.\<close>

definition merge_data_sources :: "fuzz \<Rightarrow> frame \<Rightarrow> frame \<Rightarrow> error + frame" where
  "merge_data_sources fz feedback_df qs_df =
     (if empty_frame feedback_df then Inr qs_df
      else
        (case column feedback_df ''standardized_name'' of
           Inl e \<Rightarrow> Inl e
         | Inr feedback_names \<Rightarrow>
             (case column qs_df ''standardized_name'' of
                Inl e \<Rightarrow> Inl e
              | Inr qs_names \<Rightarrow>
                  (let feedback_unis = map name_of (unique feedback_names);
                       qs_unis = map name_of (unique qs_names);
                       matches = find_university_matches fz feedback_unis qs_unis;
                       feedback_df = set_column feedback_df ''qs_match_name''
                                       (map (map_dict matches) feedback_names)
                   in case left_merge qs_df feedback_df ''standardized_name'' ''qs_match_name''
                             (''_qs'', ''_feedback'') of
                        Inl e \<Rightarrow> Inl e
                      | Inr merged_df \<Rightarrow>
                          Inr (fold prefer_feedback [''academic_rigor'', ''cultural_diversity'']
                                 merged_df)))))"


text \<open>
  Test inputs: a ranking frame with one university that also carries two metric columns,
  a feedback frame with one matching row, and a feedback frame with two names for the
  same university; \<open>fuzz_flat n\<close> is a scorer whose four measures are all \<open>n\<close>.
\<close>

definition fuzz_flat :: "int \<Rightarrow> fuzz" where
  "fuzz_flat n = \<lparr>ratio = (\<lambda>a b. n), partial_ratio = (\<lambda>a b. n),
                  token_sort_ratio = (\<lambda>a b. n), token_set_ratio = (\<lambda>a b. n)\<rparr>"

definition qs_one :: frame where
  "qs_one = \<lparr>col_names = [''standardized_name'', ''clean_rank'', ''academic_rigor'', ''student_life''],
             body = [[Str ''Yale'', Num 16, Num 6, Num 5]]\<rparr>"


definition feedback_two :: frame where
  "feedback_two = \<lparr>col_names = [''standardized_name'', ''academic_rigor'', ''student_life''],
                   body = [[Str ''Yale'', Num 8.5, Num 7], [Str ''Yale U'', Num 9, Num 6]]\<rparr>"


section \<open>Merging duplicate rows\<close>

text \<open>
  A row of the cleaned dataset, after \<^verbatim>\<open>_clean_rankings\<close> and \<^verbatim>\<open>_clean_scores\<close>:
  text columns hold strings, rank columns integers, score columns floats (here reals),
  and every cell may be null. A column that the frame lacks behaves in
  \<^verbatim>\<open>_merge_duplicate_rows\<close> like a column of nulls, so the record has all the columns the
  function names; the columns it does not name are \<open>us_news_rank\<close>,
  \<open>response_count\<close> and the extension part of the record.
\<close>

record row =
  name :: "string option"
  city :: "string option"
  country :: "string option"
  website_url :: "string option"
  academic_rigor :: "real option"
  student_life :: "real option"
  cultural_diversity :: "real option"
  campus_safety :: "real option"
  research_quality :: "real option"
  overall_quality :: "real option"
  qs_rank :: "int option"
  the_rank :: "int option"
  arwu_rank :: "int option"
  us_news_rank :: "int option"
  qs_score :: "real option"
  the_score :: "real option"
  response_count :: "int option"

text \<open>\<^verbatim>\<open>rows[field].dropna()\<close>: the non-null values of a column, in row order.\<close>

definition dropna :: "('r \<Rightarrow> 'v option) \<Rightarrow> 'r list \<Rightarrow> 'v list" where
  "dropna field rows = List.map_filter field rows"

text \<open>\<^verbatim>\<open>max(values, key=len)\<close>: the first of the longest values.\<close>

fun longest :: "string list \<Rightarrow> string" where
  "longest [] = []"
| "longest [x] = x"
| "longest (x # y # ys) = (let m = longest (y # ys) in if length x < length m then m else x)"

definition mean :: "real list \<Rightarrow> real" where
  "mean vs = sum_list vs / real (length vs)"

fun minimum :: "int list \<Rightarrow> int" where
  "minimum [] = 0"
| "minimum (x # xs) = fold min xs x"

text \<open>
  One pass of a loop \<^verbatim>\<open>for field in fields\<close>: when the column has a non-null value,
  the merged row gets the aggregate of the non-null values. A field is given by its
  selector and its update function.
\<close>

definition merge_field ::
  "('v list \<Rightarrow> 'v) \<Rightarrow> 'r list \<Rightarrow> ('r \<Rightarrow> 'v option) \<times> (('v option \<Rightarrow> 'v option) \<Rightarrow> 'r \<Rightarrow> 'r) \<Rightarrow> 'r \<Rightarrow> 'r" where
  "merge_field agg rows field merged =
     (let non_null_values = dropna (fst field) rows
      in if non_null_values \<noteq> [] then (snd field) (\<lambda>_. Some (agg non_null_values)) merged
         else merged)"

definition text_fields where
  "text_fields = [(name, name_update), (city, city_update), (country, country_update),
                  (website_url, website_url_update)]"

definition numeric_fields where
  "numeric_fields = [(academic_rigor, academic_rigor_update), (student_life, student_life_update),
                     (cultural_diversity, cultural_diversity_update),
                     (campus_safety, campus_safety_update),
                     (research_quality, research_quality_update),
                     (overall_quality, overall_quality_update)]"

definition ranking_fields where
  "ranking_fields = [(qs_rank, qs_rank_update), (the_rank, the_rank_update),
                     (arwu_rank, arwu_rank_update)]"

definition score_fields where
  "score_fields = [(qs_score, qs_score_update), (the_score, the_score_update)]"

text \<open>
  \<^verbatim>\<open>UniversityDataCleaner._merge_duplicate_rows\<close>. \<^verbatim>\<open>rows.iloc[0]\<close> raises
  \<^verbatim>\<open>IndexError\<close> on an empty group.
\<close>

definition merge_duplicate_rows :: "'a row_scheme list \<Rightarrow> error + 'a row_scheme" where
  "merge_duplicate_rows rows =
     (case rows of
        [] \<Rightarrow> Inl IndexError
      | first # _ \<Rightarrow>
          (let merged = first;
               merged = fold (merge_field longest rows) text_fields merged;
               merged = fold (merge_field mean rows) numeric_fields merged;
               merged = fold (merge_field minimum rows) ranking_fields merged;
               merged = fold (merge_field mean rows) score_fields merged
           in Inr merged))"

text \<open>Two rows of one duplicate cluster, used as a test input.\<close>

definition dup_a :: row where
  "dup_a = \<lparr>name = Some ''Tu Munich'', city = None, country = Some ''Germany'',
     website_url = None, academic_rigor = Some 4, student_life = None,
     cultural_diversity = None, campus_safety = None, research_quality = None,
     overall_quality = None, qs_rank = Some 7, the_rank = None, arwu_rank = None,
     us_news_rank = Some 9, qs_score = None, the_score = None, response_count = Some 2\<rparr>"

definition dup_b :: row where
  "dup_b = \<lparr>name = Some ''Tu Munchen'', city = None, country = Some ''Germany'',
     website_url = None, academic_rigor = Some 6, student_life = None,
     cultural_diversity = None, campus_safety = None, research_quality = None,
     overall_quality = None, qs_rank = Some 3, the_rank = Some 40, arwu_rank = None,
     us_news_rank = Some 4, qs_score = None, the_score = None, response_count = Some 3\<rparr>"

section \<open>The recommendation score\<close>

text \<open>
  The columns of \<^verbatim>\<open>University\<close> that \<^verbatim>\<open>calculate_match_score\<close> reads, typed as the
  importer fills them (floats are reals here), and \<^verbatim>\<open>UserProfile\<close> as declared in
  \<^verbatim>\<open>recommendations.py\<close>.
\<close>

record university =
  academic_rigor :: "real option"
  research_quality :: "real option"
  cultural_diversity :: "real option"
  student_life :: "real option"
  campus_safety :: "real option"
  tuition_international :: "real option"
  qs_rank :: "int option"
  country :: "string option"
  languages_of_instruction :: "string list option"
  climate_type :: "string option"
  accommodation_available :: "bool option"


text \<open>The three accumulators of the function.\<close>

record tally =
  score :: real
  reasons :: "string list"
  max_possible_score :: real






















section \<open>Properties of the string functions\<close>

lemma of_char_lower: "(of_char (lower_char c) :: nat) = (if isupper c then of_char c + 32 else of_char c)"
  by (cases c) (auto simp: lower_char_def isupper_def of_bool_def split: if_splits)

lemma of_char_upper: "(of_char (upper_char c) :: nat) = (if islower c then of_char c - 32 else of_char c)"
  by (cases c) (auto simp: upper_char_def islower_def of_bool_def split: if_splits)

lemma isspace_lower [simp]: "isspace (lower_char c) = isspace c"
  by (auto simp: isspace_def of_char_lower isupper_def Let_def)

lemma isspace_upper [simp]: "isspace (upper_char c) = isspace c"
  by (auto simp: isspace_def of_char_upper islower_def Let_def)

lemma startswith_iff: "startswith s w \<longleftrightarrow> (\<exists>q. s = w @ q)"
  by (induction s w rule: startswith.induct) auto

lemma py_in_iff: "py_in w s \<longleftrightarrow> (\<exists>p q. s = p @ w @ q)"
proof (induction s)
  case Nil
  then show ?case by auto
next
  case (Cons c cs)
  show ?case
  proof
    assume "py_in w (c # cs)"
    then consider "startswith (c # cs) w" | "py_in w cs" by auto
    then show "\<exists>p q. c # cs = p @ w @ q"
    proof cases
      case 1
      then obtain q where "c # cs = w @ q" by (auto simp: startswith_iff)
      then have "c # cs = [] @ w @ q" by simp
      then show ?thesis by blast
    next
      case 2
      then obtain p q where "cs = p @ w @ q" using Cons.IH by auto
      then have "c # cs = (c # p) @ w @ q" by simp
      then show ?thesis by blast
    qed
  next
    assume "\<exists>p q. c # cs = p @ w @ q"
    then obtain p q where pq: "c # cs = p @ w @ q" by auto
    show "py_in w (c # cs)"
    proof (cases p)
      case Nil
      with pq have "startswith (c # cs) w" by (auto simp: startswith_iff)
      then show ?thesis by simp
    next
      case (Cons a p')
      with pq have "cs = p' @ w @ q" by simp
      then have "py_in w cs" using Cons.IH by blast
      then show ?thesis by simp
    qed
  qed
qed

lemma dropWhile_keep:
  assumes "w \<noteq> []" "\<not> P (hd w)"
  shows "dropWhile P (p @ w @ q) = dropWhile P p @ w @ q"
proof -
  from assms obtain a w' where w: "w = a # w'" and a: "\<not> P a" by (cases w) auto
  show ?thesis
    by (induction p) (auto simp: w a)
qed

lemma py_in_strip:
  assumes "py_in w s" "w \<noteq> []" "\<not> isspace (hd w)" "\<not> isspace (last w)"
  shows "py_in w (py_strip s)"
proof -
  from assms(1) obtain p q where s: "s = p @ w @ q" by (auto simp: py_in_iff)
  have 1: "dropWhile isspace s = dropWhile isspace p @ w @ q"
    unfolding s using assms(2,3) by (rule dropWhile_keep)
  have rw: "rev w \<noteq> []" "\<not> isspace (hd (rev w))"
    using assms(2,4) by (auto simp: hd_rev)
  have "rev (dropWhile isspace s) = rev q @ rev w @ rev (dropWhile isspace p)"
    by (simp add: 1)
  then have "dropWhile isspace (rev (dropWhile isspace s)) =
      dropWhile isspace (rev q) @ rev w @ rev (dropWhile isspace p)"
    using dropWhile_keep[of "rev w" isspace "rev q" "rev (dropWhile isspace p)"] rw by simp
  then have "py_strip s = dropWhile isspace p @ w @ rev (dropWhile isspace (rev q))"
    by (simp add: py_strip_def)
  then show ?thesis by (auto simp: py_in_iff)
qed

lemma py_lower_strip: "py_lower (py_strip s) = py_strip (py_lower s)"
  by (simp add: py_lower_def py_strip_def rev_map dropWhile_map comp_def)

text \<open>
  Claim C10. Whenever the lower-cased input contains one of the words \<^verbatim>\<open>not\<close>,
  \<^verbatim>\<open>unranked\<close>, \<^verbatim>\<open>n/a\<close> or \<^verbatim>\<open>na\<close> as a substring, \<^verbatim>\<open>_parse_ranking\<close> returns
  null, whatever digits the input also holds.
\<close>

theorem not_ranked_null:
  assumes "word \<in> set not_ranked_words" "py_in word (py_lower v)"
  shows "parse_ranking (Some v) = Inr None"
proof -
  have w: "word \<noteq> []" "\<not> isspace (hd word)" "\<not> isspace (last word)"
    using assms(1) by (auto simp: not_ranked_words_def isspace_def)
  have "py_in word (py_lower (py_strip v))"
    unfolding py_lower_strip by (rule py_in_strip[OF assms(2) w])
  with assms(1) have "list_ex (\<lambda>word. py_in word (py_lower (py_strip v))) not_ranked_words"
    by (auto simp: list_ex_iff)
  then show ?thesis by (simp add: parse_ranking_def)
qed

theorem not_ranked_null_witness:
  "parse_ranking (Some ''12 Canada'') = Inr None"
proof -
  have 1: "''na'' \<in> set not_ranked_words" by (simp add: not_ranked_words_def)
  have 2: "py_in ''na'' (py_lower ''12 Canada'')" by code_simp
  show ?thesis by (rule not_ranked_null[OF 1 2])
qed

subsection \<open>What the rank patterns compute\<close>















subsection \<open>The rank and score parsers\<close>


















subsection \<open>The two rank parsers on plain rank strings\<close>
















subsection \<open>Merging duplicate rows\<close>

lemma set_dropna: "set (dropna field rows) = {v. \<exists>r\<in>set rows. field r = Some v}"
proof -
  have "v \<in> set (dropna field rows) \<longleftrightarrow> (\<exists>r\<in>set rows. field r = Some v)" for v
    by (induction rows) (auto simp: dropna_def map_filter_def)
  then show ?thesis by blast
qed

lemma dropna_empty: "dropna field rows = [] \<longleftrightarrow> (\<forall>r\<in>set rows. field r = None)"
  by (induction rows) (auto simp: dropna_def map_filter_def)

lemma minimum_Min: "vs \<noteq> [] \<Longrightarrow> minimum vs = Min (set vs)"
proof (cases vs)
  case Nil
  then show "vs \<noteq> [] \<Longrightarrow> ?thesis" by simp
next
  case (Cons a list)
  then show ?thesis using Min.set_eq_fold[of a list] by simp
qed

lemma merge_field_keeps:
  assumes "\<And>f r. sel (upd f r) = sel r"
  shows "sel (merge_field agg rows (g, upd) m) = sel m"
  by (simp add: merge_field_def Let_def assms)

lemma fold_merge_keeps:
  assumes "\<forall>fd\<in>set fds. \<forall>f r. sel (snd fd f r) = sel r"
  shows "sel (fold (merge_field agg rows) fds m) = sel m"
  using assms
proof (induction fds arbitrary: m)
  case Nil
  then show ?case by simp
next
  case (Cons fd fds)
  obtain g upd where fd: "fd = (g, upd)" by (cases fd)
  have "sel (merge_field agg rows fd m) = sel m"
    unfolding fd by (rule merge_field_keeps) (use Cons.prems fd in auto)
  then show ?case using Cons by simp
qed

lemma merge_field_sets:
  assumes "\<And>f r. g (upd f r) = f (g r)"
  shows "g (merge_field agg rows (g, upd) m) =
           (if dropna g rows = [] then g m else Some (agg (dropna g rows)))"
  by (simp add: merge_field_def Let_def assms)

lemma ranking_pass:
  fixes m :: "'a row_scheme"
  shows "row.qs_rank (fold (merge_field minimum rows) ranking_fields m) =
           (if dropna row.qs_rank rows = [] then row.qs_rank m
            else Some (minimum (dropna row.qs_rank rows)))"
    and "the_rank (fold (merge_field minimum rows) ranking_fields m) =
           (if dropna the_rank rows = [] then the_rank m
            else Some (minimum (dropna the_rank rows)))"
    and "arwu_rank (fold (merge_field minimum rows) ranking_fields m) =
           (if dropna arwu_rank rows = [] then arwu_rank m
            else Some (minimum (dropna arwu_rank rows)))"
  by (simp_all add: ranking_fields_def merge_field_keeps merge_field_sets)

lemma merged_rank:
  fixes first :: "'a row_scheme"
  assumes "merge_duplicate_rows (first # rest) = Inr m"
  shows "row.qs_rank m = (if dropna row.qs_rank (first # rest) = [] then row.qs_rank first
                          else Some (minimum (dropna row.qs_rank (first # rest))))"
    and "the_rank m = (if dropna the_rank (first # rest) = [] then the_rank first
                       else Some (minimum (dropna the_rank (first # rest))))"
    and "arwu_rank m = (if dropna arwu_rank (first # rest) = [] then arwu_rank first
                        else Some (minimum (dropna arwu_rank (first # rest))))"
    and "response_count m = response_count first"
    and "us_news_rank m = us_news_rank first"
proof -
  have m: "m = fold (merge_field mean (first # rest)) score_fields
                (fold (merge_field minimum (first # rest)) ranking_fields
                  (fold (merge_field mean (first # rest)) numeric_fields
                    (fold (merge_field longest (first # rest)) text_fields first)))"
    using assms by (auto simp: merge_duplicate_rows_def Let_def)
  note s = text_fields_def numeric_fields_def ranking_fields_def score_fields_def
    merge_field_keeps merge_field_sets
  show "row.qs_rank m = (if dropna row.qs_rank (first # rest) = [] then row.qs_rank first
                          else Some (minimum (dropna row.qs_rank (first # rest))))"
    unfolding m by (simp add: s)
  show "the_rank m = (if dropna the_rank (first # rest) = [] then the_rank first
                       else Some (minimum (dropna the_rank (first # rest))))"
    unfolding m by (simp add: s)
  show "arwu_rank m = (if dropna arwu_rank (first # rest) = [] then arwu_rank first
                        else Some (minimum (dropna arwu_rank (first # rest))))"
    unfolding m by (simp add: s)
  show "response_count m = response_count first"
    unfolding m by (simp add: s)
  show "us_news_rank m = us_news_rank first"
    unfolding m by (simp add: s)
qed

lemma merge_returns: "\<exists>m. merge_duplicate_rows (first # rest) = Inr m"
  by (simp add: merge_duplicate_rows_def Let_def)

text \<open>
  Claim C3, amended. For every non-empty cluster the merged row's \<open>qs_rank\<close>,
  \<open>the_rank\<close> and \<open>arwu_rank\<close> are each the minimum of the non-null values of the
  cluster's members (null when all are null); its \<open>response_count\<close> is the first
  member's, not the sum.
\<close>

theorem merged_ranks_minimum:
  fixes first :: "'a row_scheme"
  shows "\<exists>m. merge_duplicate_rows (first # rest) = Inr m \<and>
     row.qs_rank m = (if \<forall>r\<in>set (first # rest). row.qs_rank r = None then None
                      else Some (Min {v. \<exists>r\<in>set (first # rest). row.qs_rank r = Some v})) \<and>
     the_rank m = (if \<forall>r\<in>set (first # rest). the_rank r = None then None
                   else Some (Min {v. \<exists>r\<in>set (first # rest). the_rank r = Some v})) \<and>
     arwu_rank m = (if \<forall>r\<in>set (first # rest). arwu_rank r = None then None
                    else Some (Min {v. \<exists>r\<in>set (first # rest). arwu_rank r = Some v})) \<and>
     response_count m = response_count first"
proof -
  obtain m where m: "merge_duplicate_rows (first # rest) = Inr m"
    using merge_returns by blast
  have agg: "(if dropna f (first # rest) = [] then f first
              else Some (minimum (dropna f (first # rest)))) =
             (if \<forall>r\<in>set (first # rest). f r = None then None
              else Some (Min {v. \<exists>r\<in>set (first # rest). f r = Some v}))"
    for f :: "'a row_scheme \<Rightarrow> int option"
  proof (cases "dropna f (first # rest) = []")
    case True
    then have "\<forall>r\<in>set (first # rest). f r = None" by (simp only: dropna_empty)
    then show ?thesis using True by simp
  next
    case False
    then have e: "\<not> (\<forall>r\<in>set (first # rest). f r = None)"
      using dropna_empty[of f "first # rest"] by blast
    have "minimum (dropna f (first # rest)) = Min {v. \<exists>r\<in>set (first # rest). f r = Some v}"
      using minimum_Min[OF False] by (simp only: set_dropna)
    then show ?thesis using False e by (simp only: if_not_P simp_thms)
  qed
  show ?thesis
    using m merged_rank(1-4)[OF m] agg[of row.qs_rank] agg[of the_rank] agg[of arwu_rank]
    by (intro exI[of _ m]) simp
qed

theorem merged_ranks_minimum_witness:
  "\<exists>m. merge_duplicate_rows [dup_a, dup_b] = Inr m \<and> row.qs_rank m = Some 3 \<and>
       the_rank m = Some 40 \<and> arwu_rank m = None \<and> response_count m = Some 2"
proof -
  have q: "{v. \<exists>r\<in>set [dup_a, dup_b]. row.qs_rank r = Some v} = {7, 3}"
    by (auto simp: dup_a_def dup_b_def)
  have t: "{v. \<exists>r\<in>set [dup_a, dup_b]. the_rank r = Some v} = {40}"
    by (auto simp: dup_a_def dup_b_def)
  have n: "row.qs_rank dup_a = Some 7" "the_rank dup_b = Some 40"
    "arwu_rank dup_a = None" "arwu_rank dup_b = None" "response_count dup_a = Some 2"
    by (simp_all add: dup_a_def dup_b_def)
  show ?thesis
    using merged_ranks_minimum[of dup_a "[dup_b]"] unfolding q t by (simp add: n)
qed

text \<open>
  The counts of the members are not added, and \<open>us_news_rank\<close> is not among the merged
  rank columns: both stay as in the first member.
\<close>

theorem merged_count_is_first:
  "map_sum id response_count (merge_duplicate_rows [dup_a, dup_b]) = Inr (Some 2) \<and>
   response_count dup_a = Some 2 \<and> response_count dup_b = Some 3 \<and>
   map_sum id us_news_rank (merge_duplicate_rows [dup_a, dup_b]) = Inr (Some 9) \<and>
   us_news_rank dup_b = Some 4"
proof -
  obtain m where m: "merge_duplicate_rows [dup_a, dup_b] = Inr m"
    using merge_returns by blast
  show ?thesis
    using merged_rank(4,5)[OF m] by (simp add: m) (simp add: dup_a_def dup_b_def)
qed

subsection \<open>The recommendation score\<close>



subsection \<open>Fuzzy matching\<close>

lemma consider_candidate_cases:
  "consider_candidate fz k q best = best \<or>
   (consider_candidate fz k q best =
      (Some (standardize_university_name q), combined_score fz k (standardize_university_name q)) \<and>
    80 \<le> combined_score fz k (standardize_university_name q))"
  by (simp add: consider_candidate_def Let_def)

lemma fold_candidates_sound:
  "fold (consider_candidate fz k) qs best = best \<or>
   (\<exists>q\<in>set qs. fold (consider_candidate fz k) qs best =
        (Some (standardize_university_name q), combined_score fz k (standardize_university_name q)) \<and>
      80 \<le> combined_score fz k (standardize_university_name q))"
proof (induction qs arbitrary: best)
  case Nil
  then show ?case by simp
next
  case (Cons q qs)
  from Cons.IH[of "consider_candidate fz k q best"] consider_candidate_cases[of fz k q best]
  show ?case by auto
qed

lemma best_candidate_sound:
  assumes "fst (best_candidate fz k qs) = Some v"
  shows "80 \<le> combined_score fz k v"
  using fold_candidates_sound[of fz k qs "(None, 0)"] assms
  by (auto simp: best_candidate_def)

lemma fold_candidates_keep:
  assumes "\<forall>q\<in>set qs. combined_score fz k (standardize_university_name q) \<le> s"
  shows "fold (consider_candidate fz k) qs (b, s) = (b, s)"
  using assms by (induction qs) (auto simp: consider_candidate_def Let_def)

lemma fold_candidates_below:
  assumes "\<forall>q\<in>set qs. combined_score fz k (standardize_university_name q) < 80"
  shows "fold (consider_candidate fz k) qs best = best"
  using assms by (induction qs arbitrary: best) (auto simp: consider_candidate_def Let_def)

lemma best_candidate_at_threshold:
  assumes "combined_score fz k (standardize_university_name q) = 80"
    and "\<forall>e\<in>set earlier. combined_score fz k (standardize_university_name e) < 80"
    and "\<forall>l\<in>set later. combined_score fz k (standardize_university_name l) \<le> 80"
  shows "best_candidate fz k (earlier @ q # later) = (Some (standardize_university_name q), 80)"
proof -
  have "fold (consider_candidate fz k) earlier (None, 0) = (None, 0)"
    by (rule fold_candidates_below[OF assms(2)])
  moreover have "consider_candidate fz k q (None, 0) = (Some (standardize_university_name q), 80)"
    using assms(1) by (simp add: consider_candidate_def Let_def)
  moreover have "fold (consider_candidate fz k) later (Some (standardize_university_name q), 80)
      = (Some (standardize_university_name q), 80)"
    by (rule fold_candidates_keep[OF assms(3)])
  ultimately show ?thesis by (simp add: best_candidate_def)
qed

lemma fold_match_one:
  "fold (match_one fz qs) fb m k =
     (if (\<exists>f. Some f \<in> set fb \<and> f \<noteq> [] \<and> standardize_university_name (Some f) = k) \<and>
         (\<exists>v. fst (best_candidate fz k qs) = Some v \<and> v \<noteq> [])
      then fst (best_candidate fz k qs) else m k)"
proof (induction fb arbitrary: m)
  case Nil
  then show ?case by simp
next
  case (Cons a fb)
  show ?case
  proof (cases a)
    case None
    then have "match_one fz qs a m = m" by (simp add: match_one_def)
    then show ?thesis using Cons.IH[of m] None by auto
  next
    case (Some f)
    show ?thesis
    proof (cases "f \<noteq> [] \<and> standardize_university_name (Some f) = k \<and>
                  (\<exists>v. fst (best_candidate fz k qs) = Some v \<and> v \<noteq> [])")
      case True
      then obtain v where v: "fst (best_candidate fz k qs) = Some v" "v \<noteq> []" by blast
      have "match_one fz qs a m = m(k \<mapsto> v)"
        using True v by (simp add: match_one_def Some Let_def)
      moreover have "fold (match_one fz qs) fb (m(k \<mapsto> v)) k =
          (if (\<exists>f. Some f \<in> set fb \<and> f \<noteq> [] \<and> standardize_university_name (Some f) = k) \<and>
              (\<exists>v. fst (best_candidate fz k qs) = Some v \<and> v \<noteq> [])
           then fst (best_candidate fz k qs) else (m(k \<mapsto> v)) k)"
        by (rule Cons.IH)
      then have "fold (match_one fz qs) fb (m(k \<mapsto> v)) k = Some v"
        using v by (simp split: if_splits)
      ultimately have l: "fold (match_one fz qs) (a # fb) m k = Some v" by simp
      have "\<exists>f. Some f \<in> set (a # fb) \<and> f \<noteq> [] \<and> standardize_university_name (Some f) = k"
        using True Some by auto
      then show ?thesis using l v by auto
    next
      case False
      then have "match_one fz qs a m k = m k"
        by (auto simp: match_one_def Some Let_def split: option.splits)
      have "fold (match_one fz qs) (a # fb) m k =
            fold (match_one fz qs) fb (match_one fz qs a m) k" by simp
      also have "\<dots> = (if (\<exists>f. Some f \<in> set fb \<and> f \<noteq> [] \<and> standardize_university_name (Some f) = k) \<and>
         (\<exists>v. fst (best_candidate fz k qs) = Some v \<and> v \<noteq> [])
        then fst (best_candidate fz k qs) else match_one fz qs a m k)"
        by (rule Cons.IH)
      finally show ?thesis
        using False \<open>match_one fz qs a m k = m k\<close> Some by auto
    qed
  qed
qed

lemma find_university_matches_eq:
  "find_university_matches fz fb qs k =
     (if (\<exists>f. Some f \<in> set fb \<and> f \<noteq> [] \<and> standardize_university_name (Some f) = k) \<and>
         (\<exists>v. fst (best_candidate fz k qs) = Some v \<and> v \<noteq> [])
      then fst (best_candidate fz k qs) else None)"
  by (simp add: find_university_matches_def fold_match_one)

text \<open>
  Claim C5. The combined score is the weighted sum 0.30, 0.20, 0.25, 0.25 of the four
  measures. A feedback name is mapped to the candidate that wins the search; a candidate
  whose score is exactly 80 wins when no earlier candidate reaches 80 and no later one
  exceeds it, and is then in the mapping (the program drops an empty feedback name and
  an empty match). No pair whose score is below 80 is in the mapping.
\<close>

theorem threshold_inclusive:
  "(Some f \<in> set feedback \<and> f \<noteq> [] \<and> standardize_university_name q \<noteq> [] \<and>
    combined_score fz (standardize_university_name (Some f)) (standardize_university_name q) = 80 \<and>
    (\<forall>e\<in>set earlier.
       combined_score fz (standardize_university_name (Some f)) (standardize_university_name e) < 80) \<and>
    (\<forall>l\<in>set later.
       combined_score fz (standardize_university_name (Some f)) (standardize_university_name l) \<le> 80)
    \<longrightarrow> find_university_matches fz feedback (earlier @ q # later)
          (standardize_university_name (Some f)) = Some (standardize_university_name q)) \<and>
   (\<forall>k v. combined_score fz k v < 80 \<longrightarrow> find_university_matches fz feedback qs k \<noteq> Some v) \<and>
   combined_score fz k v =
     real_of_int (ratio fz (py_lower k) (py_lower v)) * 0.30 +
     real_of_int (partial_ratio fz (py_lower k) (py_lower v)) * 0.20 +
     real_of_int (token_sort_ratio fz (py_lower k) (py_lower v)) * 0.25 +
     real_of_int (token_set_ratio fz (py_lower k) (py_lower v)) * 0.25"
proof (intro conjI impI allI)
  assume a: "Some f \<in> set feedback \<and> f \<noteq> [] \<and> standardize_university_name q \<noteq> [] \<and>
    combined_score fz (standardize_university_name (Some f)) (standardize_university_name q) = 80 \<and>
    (\<forall>e\<in>set earlier.
       combined_score fz (standardize_university_name (Some f)) (standardize_university_name e) < 80) \<and>
    (\<forall>l\<in>set later.
       combined_score fz (standardize_university_name (Some f)) (standardize_university_name l) \<le> 80)"
  then have b: "best_candidate fz (standardize_university_name (Some f)) (earlier @ q # later) =
      (Some (standardize_university_name q), 80)"
    by (intro best_candidate_at_threshold) auto
  show "find_university_matches fz feedback (earlier @ q # later)
          (standardize_university_name (Some f)) = Some (standardize_university_name q)"
    using a by (simp add: find_university_matches_eq b) blast
next
  fix k v
  assume lt: "combined_score fz k v < 80"
  show "find_university_matches fz feedback qs k \<noteq> Some v"
  proof
    assume "find_university_matches fz feedback qs k = Some v"
    then have "fst (best_candidate fz k qs) = Some v"
      by (simp add: find_university_matches_eq split: if_splits)
    from best_candidate_sound[OF this] lt show False by simp
  qed
next
  show "combined_score fz k v =
     real_of_int (ratio fz (py_lower k) (py_lower v)) * 0.30 +
     real_of_int (partial_ratio fz (py_lower k) (py_lower v)) * 0.20 +
     real_of_int (token_sort_ratio fz (py_lower k) (py_lower v)) * 0.25 +
     real_of_int (token_set_ratio fz (py_lower k) (py_lower v)) * 0.25"
    by (simp add: combined_score_def Let_def)
qed


subsection \<open>Characters under case mapping\<close>

lemma not_upper_lower [simp]: "\<not> isupper (lower_char c)"
  by (auto simp: isupper_def of_char_lower Let_def)

lemma not_lower_upper [simp]: "\<not> islower (upper_char c)"
  by (auto simp: islower_def of_char_upper Let_def)

lemma lower_lower [simp]: "lower_char (lower_char c) = lower_char c"
  by (simp add: lower_char_def[of "lower_char c"])

lemma upper_upper [simp]: "upper_char (upper_char c) = upper_char c"
  by (simp add: upper_char_def[of "upper_char c"])

lemma char_eqI: "(of_char c :: nat) = of_char d \<Longrightarrow> c = d"
  by simp

lemma lower_upper [simp]: "lower_char (upper_char c) = lower_char c"
  by (rule char_eqI) (auto simp: of_char_lower of_char_upper isupper_def islower_def Let_def)

lemma upper_lower [simp]: "upper_char (lower_char c) = upper_char c"
  by (rule char_eqI) (auto simp: of_char_lower of_char_upper isupper_def islower_def Let_def)

lemma isalpha_lower [simp]: "isalpha (lower_char c) = isalpha c"
  by (auto simp: isalpha_def isupper_def islower_def of_char_lower Let_def)

lemma isalpha_upper [simp]: "isalpha (upper_char c) = isalpha c"
  by (auto simp: isalpha_def isupper_def islower_def of_char_upper Let_def)

lemma space_not_alpha: "isspace c \<Longrightarrow> \<not> isalpha c"
  by (auto simp: isalpha_def isupper_def islower_def isspace_def Let_def)

lemma space_case_fixed: "isspace c \<Longrightarrow> lower_char c = c \<and> upper_char c = c"
  by (auto simp: lower_char_def upper_char_def isupper_def islower_def isspace_def Let_def)

subsection \<open>A pattern that matches nowhere\<close>





subsection \<open>Splitting into words and joining\<close>






























lemma space_lower [simp]: "isspace (lower_char c) = isspace c"
  by (auto simp: isspace_def of_char_lower isupper_def Let_def)

lemma space_upper [simp]: "isspace (upper_char c) = isspace c"
  by (auto simp: isspace_def of_char_upper islower_def Let_def)









lemma capitalize_empty [simp]: "capitalize w = [] \<longleftrightarrow> w = []"
  by (cases w) simp_all

lemma capitalize_spaces [simp]:
  "(\<forall>c\<in>set (capitalize w). \<not> isspace c) \<longleftrightarrow> (\<forall>c\<in>set w. \<not> isspace c)"
  by (cases w) simp_all

lemma lower_empty [simp]: "py_lower w = [] \<longleftrightarrow> w = []"
  by (simp add: py_lower_def)

lemma lower_spaces [simp]:
  "(\<forall>c\<in>set (py_lower w). \<not> isspace c) \<longleftrightarrow> (\<forall>c\<in>set w. \<not> isspace c)"
  by (simp add: py_lower_def)

lemma case_word_empty [simp]: "case_word w = [] \<longleftrightarrow> w = []"
  by (simp add: case_word_def)

lemma case_word_spaces [simp]:
  "(\<forall>c\<in>set (case_word w). \<not> isspace c) \<longleftrightarrow> (\<forall>c\<in>set w. \<not> isspace c)"
  by (simp add: case_word_def)

lemma title_from_empty [simp]: "title_from b w = [] \<longleftrightarrow> w = []"
  by (cases w) simp_all

lemma title_from_spaces [simp]:
  "(\<forall>c\<in>set (title_from b w). \<not> isspace c) \<longleftrightarrow> (\<forall>c\<in>set w. \<not> isspace c)"
  by (induction w arbitrary: b) simp_all





subsection \<open>Fixed points of the normalizers\<close>







subsection \<open>The Toronto records\<close>

text \<open>
  Claim C8, amended. Both names of the two Toronto records normalize to
  \<^verbatim>\<open>University of Toronto\<close>. The country \<^verbatim>\<open>Canada\<close> stays \<^verbatim>\<open>Canada\<close>; the country code
  \<^verbatim>\<open>CA\<close> is in no alias table and is only title-cased, to \<^verbatim>\<open>Ca\<close>.
\<close>

theorem toronto_normalized:
  "clean_university_name (Some ''Univ. of Toronto'') = ''University of Toronto'' \<and>
   clean_university_name (Some ''University of Toronto'') = ''University of Toronto'' \<and>
   clean_country_name (Some ''Canada'') = ''Canada'' \<and>
   clean_country_name (Some ''CA'') = ''Ca''"
  by code_simp

text \<open>The two country values do not meet: \<^verbatim>\<open>CA\<close> is not canonicalized to \<^verbatim>\<open>Canada\<close>.\<close>

theorem toronto_country_code:
  "clean_country_name (Some ''CA'') \<noteq> ''Canada'' \<and>
   clean_country_name (Some ''CA'') \<noteq> clean_country_name (Some ''Canada'')"
  by code_simp


subsection \<open>Merging the two sources on the test frames\<close>

lemma std_yale: "standardize_university_name (Some ''Yale'') = ''Yale''"
  by code_simp

lemma std_yale_u: "standardize_university_name (Some ''Yale U'') = ''Yale U''"
  by code_simp

lemma best_single:
  assumes "80 \<le> combined_score fz k (standardize_university_name q)"
  shows "fst (best_candidate fz k [q]) = Some (standardize_university_name q)"
  using assms by (simp add: best_candidate_def consider_candidate_def Let_def)


lemma matches_yale_two:
  assumes "80 \<le> combined_score fz ''Yale'' ''Yale''" "80 \<le> combined_score fz ''Yale U'' ''Yale''"
  shows "find_university_matches fz [Some ''Yale'', Some ''Yale U''] [Some ''Yale''] ''Yale'' = Some ''Yale''"
    and "find_university_matches fz [Some ''Yale'', Some ''Yale U''] [Some ''Yale''] ''Yale U'' = Some ''Yale''"
proof -
  have 1: "fst (best_candidate fz ''Yale'' [Some ''Yale'']) = Some ''Yale''"
    using best_single[of fz "''Yale''" "Some ''Yale''"] assms by (simp add: std_yale)
  have 2: "fst (best_candidate fz ''Yale U'' [Some ''Yale'']) = Some ''Yale''"
    using best_single[of fz "''Yale U''" "Some ''Yale''"] assms by (simp add: std_yale)
  have e1: "\<exists>f. Some f \<in> set [Some ''Yale'', Some ''Yale U''] \<and> f \<noteq> [] \<and>
      standardize_university_name (Some f) = ''Yale''"
    by (rule exI[of _ "''Yale''"]) (simp add: std_yale)
  have e2: "\<exists>f. Some f \<in> set [Some ''Yale'', Some ''Yale U''] \<and> f \<noteq> [] \<and>
      standardize_university_name (Some f) = ''Yale U''"
    by (rule exI[of _ "''Yale U''"]) (simp add: std_yale_u)
  show "find_university_matches fz [Some ''Yale'', Some ''Yale U''] [Some ''Yale''] ''Yale'' = Some ''Yale''"
    unfolding find_university_matches_eq using e1 1 by simp
  show "find_university_matches fz [Some ''Yale'', Some ''Yale U''] [Some ''Yale''] ''Yale U'' = Some ''Yale''"
    unfolding find_university_matches_eq using e2 2 by simp
qed

lemmas frame_ops = merge_data_sources_def empty_frame_def column_def unique_def name_of_def
  set_column_def left_merge_def prefer_feedback_def fillna_def cell_at_def map_dict_def Let_def


lemma merged_two:
  assumes "80 \<le> combined_score fz ''Yale'' ''Yale''" "80 \<le> combined_score fz ''Yale U'' ''Yale''"
  shows "merge_data_sources fz feedback_two qs_one =
     Inr \<lparr>col_names = [''standardized_name_qs'', ''clean_rank'', ''academic_rigor_qs'',
                       ''student_life_qs'', ''standardized_name_feedback'',
                       ''academic_rigor_feedback'', ''student_life_feedback'',
                       ''qs_match_name'', ''academic_rigor''],
          body = [[Str ''Yale'', Num 16, Num 6, Num 5, Str ''Yale'', Num 8.5, Num 7,
                   Str ''Yale'', Num 8.5],
                  [Str ''Yale'', Num 16, Num 6, Num 5, Str ''Yale U'', Num 9, Num 6,
                   Str ''Yale'', Num 9]]\<rparr>"
  by (simp add: frame_ops feedback_two_def qs_one_def matches_yale_two[OF assms])

lemma flat_score: "combined_score (fuzz_flat 100) a b = 100"
  by (simp add: combined_score_def fuzz_flat_def)



text \<open>
  Claim C4 at a feedback frame with two names that both match the one university of the
  ranking frame: the left merge pairs the ranking row with each of them, so the result
  has two rows where the ranking frame has one.
\<close>

theorem merge_row_count_grows:
  assumes "80 \<le> combined_score fz ''Yale'' ''Yale''"
    and "80 \<le> combined_score fz ''Yale U'' ''Yale''"
  shows "\<exists>merged. merge_data_sources fz feedback_two qs_one = Inr merged \<and>
     length (body merged) = 2 \<and> length (body qs_one) = 1"
  by (simp add: merged_two[OF assms]) (simp add: qs_one_def)

theorem merge_row_count_grows_witness:
  "\<exists>merged. merge_data_sources (fuzz_flat 100) feedback_two qs_one = Inr merged \<and>
     length (body merged) = 2 \<and> length (body qs_one) = 1"
proof -
  have "80 \<le> combined_score (fuzz_flat 100) ''Yale'' ''Yale''"
    and "80 \<le> combined_score (fuzz_flat 100) ''Yale U'' ''Yale''"
    by (simp_all add: flat_score)
  then show ?thesis by (rule merge_row_count_grows)
qed

text \<open>A witness for the threshold theorem: the scorer that rates every pair 80.\<close>

lemma std_x: "standardize_university_name (Some ''X'') = ''X''"
  by code_simp

theorem threshold_inclusive_witness:
  "find_university_matches (fuzz_flat 80) [Some ''X''] [Some ''X''] ''X'' = Some ''X''"
proof -
  have s: "combined_score (fuzz_flat 80) ''X'' ''X'' = 80"
    by (simp add: combined_score_def fuzz_flat_def)
  show ?thesis
    using threshold_inclusive[where f="''X''" and feedback="[Some ''X'']" and q="Some ''X''"
        and fz="fuzz_flat 80" and earlier="[]" and later="[]"]
    by (simp add: std_x s)
qed

subsection \<open>Idempotence of the normalizers\<close>




end
